theory Spec2Isabelle
  imports Main "HOL-Library.Sublist"
begin

unbundle bit_operations_syntax

section \<open>Python values\<close>

text \<open>
  A Python \<open>str\<close> is a sequence of Unicode code points. The source holds the literal
  U+2013 (the en dash of \<open>format_record\<close>), which is no 8-bit character, and
  \<open>json.dumps\<close> escapes by code point, so a string is modelled as the list of its code
  points. \<open>ascii\<close> reads an ASCII literal as such a list.
\<close>

type_synonym str = "nat list"

definition ascii :: "string \<Rightarrow> str" where
  "ascii s = map of_char s"

text \<open>\<open>sep.join(xs)\<close> on a list of strings.\<close>

fun join :: "str \<Rightarrow> str list \<Rightarrow> str" where
  "join sep [] = []"
| "join sep [x] = x"
| "join sep (x # y # ys) = x @ sep @ join sep (y # ys)"

subsection \<open>json.dumps on a list of strings\<close>

text \<open>
  \<open>json.dumps\<close> with its default arguments (\<open>ensure_ascii=True\<close>, item separator
  \<open>", "\<close>), as \<open>json.encoder.py_encode_basestring_ascii\<close> computes it: backslash,
  the double quote and every character outside \<open>' '..'~'\<close> are escaped, the control
  characters \<open>\b \f \n \r \t\<close> by their short forms, any other code point below
  \<open>0x10000\<close> as \<open>\uXXXX\<close> and the ones above as a surrogate pair.
  \<open>hex4\<close> is \<open>'{0:04x}'.format(n)\<close>, which is only applied below \<open>0x10000\<close>.
\<close>

definition hex_digit :: "nat \<Rightarrow> nat" where
  "hex_digit d = (if d < 10 then 48 + d else 87 + d)"

definition hex4 :: "nat \<Rightarrow> str" where
  "hex4 n = [hex_digit (n div 4096 mod 16), hex_digit (n div 256 mod 16),
             hex_digit (n div 16 mod 16), hex_digit (n mod 16)]"

definition escape_char :: "nat \<Rightarrow> str" where
  "escape_char c =
     (if c = 92 then [92, 92]
      else if c = 34 then [92, 34]
      else if c = 8 then [92, 98]
      else if c = 12 then [92, 102]
      else if c = 10 then [92, 110]
      else if c = 13 then [92, 114]
      else if c = 9 then [92, 116]
      else if 32 \<le> c \<and> c \<le> 126 then [c]
      else if c < 0x10000 then [92, 117] @ hex4 c
      else (let n = c - 0x10000;
                s1 = 0xd800 OR (drop_bit 10 n AND 0x3ff);
                s2 = 0xdc00 OR (n AND 0x3ff)
            in [92, 117] @ hex4 s1 @ [92, 117] @ hex4 s2))"

definition encode_basestring_ascii :: "str \<Rightarrow> str" where
  "encode_basestring_ascii s = [34] @ concat (map escape_char s) @ [34]"

definition json_dumps :: "str list \<Rightarrow> str" where
  "json_dumps xs = [91] @ join (ascii '', '') (map encode_basestring_ascii xs) @ [93]"

subsection \<open>json.loads on an array of strings\<close>

text \<open>
  \<open>json.loads\<close> with its default arguments, on the texts that hold an array of
  strings: the model has \<open>None\<close> for every other text, where \<open>json.loads\<close> returns
  another JSON value or raises. The scanner is the one of \<open>json.scanner\<close> and
  \<open>json.decoder\<close>: a string ends at the first unescaped double quote and may hold no
  control character; an escape is one of \<open>\" \\ \/ \b \f \n \r \t\<close> or \<open>\uXXXX\<close> with four
  hexadecimal digits, and a high surrogate followed by the escape of a low surrogate
  is joined with it into one code point.
\<close>

definition hex_value :: "nat \<Rightarrow> nat option" where
  "hex_value c =
     (if 48 \<le> c \<and> c \<le> 57 then Some (c - 48)
      else if 97 \<le> c \<and> c \<le> 102 then Some (c - 87)
      else if 65 \<le> c \<and> c \<le> 70 then Some (c - 55)
      else None)"

fun decode_hex4 :: "str \<Rightarrow> (nat \<times> str) option" where
  "decode_hex4 (a # b # c # d # rest) =
     (case (hex_value a, hex_value b, hex_value c, hex_value d) of
        (Some x, Some y, Some z, Some u) \<Rightarrow> Some (((x * 16 + y) * 16 + z) * 16 + u, rest)
      | _ \<Rightarrow> None)"
| "decode_hex4 _ = None"

text \<open>The text after a backslash: the character it stands for, and the text after it.\<close>

definition scan_escape :: "str \<Rightarrow> (nat \<times> str) option" where
  "scan_escape s =
     (case s of
        [] \<Rightarrow> None
      | e # s1 \<Rightarrow>
          if e = 117 then
            (case decode_hex4 s1 of
               None \<Rightarrow> None
             | Some (c, s2) \<Rightarrow>
                 if 0xd800 \<le> c \<and> c \<le> 0xdbff \<and> take 2 s2 = [92, 117]
                 then (case decode_hex4 (drop 2 s2) of
                         None \<Rightarrow> None
                       | Some (c2, s3) \<Rightarrow>
                           if 0xdc00 \<le> c2 \<and> c2 \<le> 0xdfff
                           then Some (0x10000 + (push_bit 10 (c AND 0x3ff) OR (c2 AND 0x3ff)), s3)
                           else Some (c, s2))
                 else Some (c, s2))
          else if e = 34 then Some (34, s1)
          else if e = 92 then Some (92, s1)
          else if e = 47 then Some (47, s1)
          else if e = 98 then Some (8, s1)
          else if e = 102 then Some (12, s1)
          else if e = 110 then Some (10, s1)
          else if e = 114 then Some (13, s1)
          else if e = 116 then Some (9, s1)
          else None)"

text \<open>
  The text after an opening double quote: the string, and the text after the closing
  quote.
\<close>

function scanstring :: "str \<Rightarrow> (str \<times> str) option" where
  "scanstring [] = None"
| "scanstring (c # s) =
     (if c = 34 then Some ([], s)
      else if c = 92 then
        (case scan_escape s of
           None \<Rightarrow> None
         | Some (u, s1) \<Rightarrow>
             (case scanstring s1 of None \<Rightarrow> None | Some (cs, rest) \<Rightarrow> Some (u # cs, rest)))
      else if c < 32 then None
      else (case scanstring s of None \<Rightarrow> None | Some (cs, rest) \<Rightarrow> Some (c # cs, rest)))"
  by pat_completeness auto
termination
proof (relation "measure length", goal_cases)
  case 1
  show ?case by simp
next
  case (2 c s x2 u s1)
  have hex: "\<And>t n r. decode_hex4 t = Some (n, r) \<Longrightarrow> length r < length t"
    subgoal for t n r
      by (induction t rule: decode_hex4.induct) (auto split: option.splits)
    done
  have "length s1 < length s"
    using 2(3,4)
    by (auto simp: scan_escape_def split: list.splits if_splits option.splits dest!: hex)
  then show ?case by simp
next
  case (3 c s)
  show ?case by simp
qed

text \<open>The whitespace of JSON: space, tab, line feed, carriage return.\<close>

definition skip_ws :: "str \<Rightarrow> str" where
  "skip_ws s = dropWhile (\<lambda>c. c = 32 \<or> c = 9 \<or> c = 10 \<or> c = 13) s"

text \<open>
  The items of a non-empty array, from the first one on: the strings, and the text after
  the closing bracket.
\<close>

function parse_items :: "str \<Rightarrow> (str list \<times> str) option" where
  "parse_items s =
     (case s of
        [] \<Rightarrow> None
      | q # s1 \<Rightarrow>
          if q \<noteq> 34 then None
          else (case scanstring s1 of
                  None \<Rightarrow> None
                | Some (x, s2) \<Rightarrow>
                    (case skip_ws s2 of
                       [] \<Rightarrow> None
                     | c # s3 \<Rightarrow>
                         if c = 93 then Some ([x], s3)
                         else if c = 44 then
                           (case parse_items (skip_ws s3) of
                              None \<Rightarrow> None
                            | Some (xs, rest) \<Rightarrow> Some (x # xs, rest))
                         else None)))"
  by pat_completeness auto
termination
proof (relation "measure length", goal_cases)
  case 1
  show ?case by simp
next
  case (2 s q s1 x2 x s2 c s3)
  have hex: "\<And>t n r. decode_hex4 t = Some (n, r) \<Longrightarrow> length r < length t"
    subgoal for t n r
      by (induction t rule: decode_hex4.induct) (auto split: option.splits)
    done
  have esc: "\<And>t n r. scan_escape t = Some (n, r) \<Longrightarrow> length r < length t"
    by (auto simp: scan_escape_def split: list.splits if_splits option.splits dest!: hex)
  have scan: "\<And>t y r. scanstring t = Some (y, r) \<Longrightarrow> length r < length t"
    subgoal for t y r
    proof (induction t arbitrary: y r rule: scanstring.induct)
      case 1
      then show ?case by simp
    next
      case (2 c s)
      then show ?case
        by (fastforce split: if_splits option.splits prod.splits dest: esc)
    qed
    done
  have "length (skip_ws s3) \<le> length s3"
    by (simp add: skip_ws_def length_dropWhile_le)
  moreover have "length s3 < length (skip_ws s2)" using 2 by simp
  moreover have "length (skip_ws s2) \<le> length s2"
    by (simp add: skip_ws_def length_dropWhile_le)
  moreover have "length s2 < length s1" using 2 scan by auto
  ultimately show ?case using 2 by simp
qed

declare parse_items.simps [simp del]

definition json_loads :: "str \<Rightarrow> str list option" where
  "json_loads s =
     (case skip_ws s of
        [] \<Rightarrow> None
      | b # s1 \<Rightarrow>
          if b \<noteq> 91 then None
          else (case skip_ws s1 of
                  [] \<Rightarrow> None
                | c # s2 \<Rightarrow>
                    if c = 93 then (if skip_ws s2 = [] then Some [] else None)
                    else (case parse_items (c # s2) of
                            None \<Rightarrow> None
                          | Some (xs, rest) \<Rightarrow> if skip_ws rest = [] then Some xs else None)))"

text \<open>
  The code points that are no surrogates (the Unicode scalar values), and the step of
  the scanner that puts a character in front of the string that follows.
\<close>

definition scalar :: "nat \<Rightarrow> bool" where
  "scalar c = (c < 0xd800 \<or> (0xe000 \<le> c \<and> c < 0x110000))"

definition consc :: "nat \<Rightarrow> (str \<times> str) option \<Rightarrow> (str \<times> str) option" where
  "consc c r = (case r of None \<Rightarrow> None | Some (cs, rest) \<Rightarrow> Some (c # cs, rest))"

section \<open>The collaborators of record.py\<close>

text \<open>
  \<open>Text\<close> and \<open>Tag\<close> are value wrappers with one attribute, \<open>.value\<close>. \<open>self.text\<close>
  is annotated \<open>Text\<close>, but \<open>replace_text\<close> assigns a raw \<open>str\<close> to it, so the
  attribute holds either.
\<close>

datatype Text = Text (text_value: str)

datatype Tag = Tag (tag_value: str)

datatype text_attr = TextObj Text | StrObj str

text \<open>
  \<open>sqlalchemy.exc.IntegrityError\<close>: the code reads \<open>str(e.orig)\<close>, the message of the
  driver.
\<close>

datatype IntegrityError = IntegrityError (orig: str)

text \<open>
  The exceptions that leave the methods. \<open>TypeError\<close> is the one of \<open>object.__new__\<close>
  for a class with abstract methods ("Can't instantiate abstract class ..."); it
  carries their names. \<open>UnicodeEncodeError\<close> and \<open>OverflowError\<close> are the ones of the
  \<open>sqlite3\<close> driver for a parameter it cannot bind; they are no database errors, and
  SQLAlchemy passes them on as they are.
\<close>

datatype exn =
    ValidationError str
  | ValueError str
  | AttributeError str
  | IntegrityRaised IntegrityError
  | TypeError "string list"
  | UnicodeEncodeError
  | OverflowError

text \<open>
  The modules \<open>.text\<close>, \<open>.tag\<close> and \<open>personal_assistant.services.db\<close> are not part of
  the sources at hand, so what they decide is a parameter of the model:
  \<^item> \<open>Text_init s\<close> is the \<open>.value\<close> of \<open>Text(s)\<close>, or \<open>None\<close> when the constructor
    raises (modelled as \<open>ValidationError s\<close>); \<open>Tag_init\<close> likewise for \<open>Tag(s)\<close>;
  \<^item> \<open>other_integrity note tags\<close> is the integrity error, if any, that committing the
    INSERT of a row with these column values raises for a constraint of \<open>ModelNotes\<close>
    other than the uniqueness of \<open>note\<close>.
\<close>

record collaborators =
  Text_init :: "str \<Rightarrow> str option"
  Tag_init :: "str \<Rightarrow> str option"
  other_integrity :: "str \<Rightarrow> str \<Rightarrow> IntegrityError option"

text \<open>
  Modelled from the spec: the validation of \<open>Text\<close> and \<open>Tag\<close>, whose modules \<open>.text\<close>
  and \<open>.tag\<close> are missing. Section 3 gives both wrappers the invariant "non-empty" and
  section 4.1 lets construction fail on invalid input and expose the value otherwise.
\<close>

definition nonempty :: "str \<Rightarrow> str option" where
  "nonempty s = (if s = [] then None else Some s)"

text \<open>
  Modelled from the spec: the collaborators as the spec describes them, \<open>Text\<close> and
  \<open>Tag\<close> as above and a table with no constraint besides the primary key and the
  uniqueness of \<open>note\<close> (section 6). They are the instance at which the general
  statements below are evaluated.
\<close>

definition spec_collaborators :: collaborators where
  "spec_collaborators =
     \<lparr>Text_init = nonempty, Tag_init = nonempty, other_integrity = (\<lambda>note tags. None)\<rparr>"

section \<open>The notes table\<close>

text \<open>
  Modelled from the spec: the declaration of \<open>ModelNotes\<close>, which is in the missing
  module \<open>personal_assistant.services.db\<close>. By section 6 the table has the columns
  \<open>id\<close> (integer primary key, assigned by the database), \<open>note\<close> (text, unique, not
  null) and \<open>tags\<close> (text); the code agrees, naming the three columns and the message
  of SQLite for the unique index of \<open>notes.note\<close>.

  The world the methods act on is the committed rows and what \<open>print\<close> was given.
\<close>

record ModelNotes =
  notes_id :: int
  notes_note :: str
  notes_tags :: str

record world =
  db_notes :: "ModelNotes list"
  stdout :: "IntegrityError list"

definition unique_failed :: str where
  "unique_failed = ascii ''UNIQUE constraint failed: notes.note''"

text \<open>
  SQLite gives a row inserted without an id the id following the largest one in the
  table, and 1 in an empty table. (Ids are unbounded here; a table that holds the
  largest 64-bit id is left out.)
\<close>

definition next_rowid :: "ModelNotes list \<Rightarrow> int" where
  "next_rowid rows = (if rows = [] then 1 else Max (set (map notes_id rows)) + 1)"

text \<open>
  \<open>session.merge(ModelNotes(note=..., tags=...))\<close> followed by \<open>session.commit()\<close>: the
  object has no primary key, so the merge adds a new pending row and the commit flushes
  one INSERT. It fails with the error of another constraint, or with SQLite's message
  for the uniqueness of \<open>note\<close> when a row holds this text (SQLite checks the unique
  index last); the transaction is then rolled back. Otherwise the row is stored and the
  result is the row as stored, with its id, and the new table. (The errors of the
  driver for a parameter it cannot bind are modelled for the statements of the other
  methods, below; the text inserted here is taken to be one that it can encode.)
\<close>

definition commit_insert ::
  "collaborators \<Rightarrow> ModelNotes list \<Rightarrow> str \<Rightarrow> str \<Rightarrow> IntegrityError + (ModelNotes \<times> ModelNotes list)"
where
  "commit_insert cl rows note tags =
     (case other_integrity cl note tags of
        Some e \<Rightarrow> Inl e
      | None \<Rightarrow>
          if note \<in> set (map notes_note rows) then Inl (IntegrityError unique_failed)
          else (let row = \<lparr>notes_id = next_rowid rows, notes_note = note, notes_tags = tags\<rparr>
                in Inr (row, rows @ [row])))"

text \<open>
  \<open>.where(ModelNotes.id == self.note_id)\<close>: with \<open>None\<close> the clause is \<open>id IS NULL\<close>,
  which no row of a primary key satisfies.
\<close>

definition id_is :: "int option \<Rightarrow> ModelNotes \<Rightarrow> bool" where
  "id_is k r = (k = Some (notes_id r))"

text \<open>
  What the \<open>sqlite3\<close> driver can bind as a parameter of a statement. A \<open>str\<close> is sent
  as UTF-8, in which a surrogate code point has no encoding (\<open>UnicodeEncodeError\<close>);
  an \<open>int\<close> must fit the 64-bit integer of SQLite (\<open>OverflowError\<close>); \<open>None\<close> needs no
  parameter. The parameters are bound before the statement runs, in the order of the
  statement, so the error is raised also when the statement would match no row.
\<close>

definition bind_text :: "str \<Rightarrow> bool" where
  "bind_text v = list_all scalar v"

definition bind_id :: "int option \<Rightarrow> bool" where
  "bind_id k = (case k of None \<Rightarrow> True | Some i \<Rightarrow> - (2 ^ 63) \<le> i \<and> i < 2 ^ 63)"

text \<open>
  \<open>UPDATE notes SET note = v WHERE id = k\<close>, committed. The id is the primary key, so at
  most one row is written (\<open>set_note\<close> is the table with it written); the statement is
  rejected when another row holds \<open>v\<close>.
\<close>

definition set_note :: "ModelNotes list \<Rightarrow> int option \<Rightarrow> str \<Rightarrow> ModelNotes list" where
  "set_note rows k v = map (\<lambda>r. if id_is k r then r\<lparr>notes_note := v\<rparr> else r) rows"

definition update_note :: "ModelNotes list \<Rightarrow> int option \<Rightarrow> str \<Rightarrow> exn + ModelNotes list" where
  "update_note rows k v =
     (if \<not> bind_text v then Inl UnicodeEncodeError
      else if \<not> bind_id k then Inl OverflowError
      else if filter (id_is k) rows \<noteq> []
                \<and> v \<in> set (map notes_note (filter (\<lambda>r. \<not> id_is k r) rows))
      then Inl (IntegrityRaised (IntegrityError unique_failed))
      else Inr (set_note rows k v))"

text \<open>
  \<open>UPDATE notes SET tags = v WHERE id = k\<close>, committed; \<open>set_tags\<close> is the table with
  the column written.
\<close>

definition set_tags :: "ModelNotes list \<Rightarrow> int option \<Rightarrow> str \<Rightarrow> ModelNotes list" where
  "set_tags rows k v = map (\<lambda>r. if id_is k r then r\<lparr>notes_tags := v\<rparr> else r) rows"

definition update_tags :: "ModelNotes list \<Rightarrow> int option \<Rightarrow> str \<Rightarrow> exn + ModelNotes list" where
  "update_tags rows k v =
     (if \<not> bind_text v then Inl UnicodeEncodeError
      else if \<not> bind_id k then Inl OverflowError
      else Inr (set_tags rows k v))"

text \<open>
  \<open>DELETE FROM notes WHERE id = k\<close>, committed; \<open>rows_without\<close> is the table without
  the rows of that id.
\<close>

definition rows_without :: "ModelNotes list \<Rightarrow> int option \<Rightarrow> ModelNotes list" where
  "rows_without rows k = filter (\<lambda>r. \<not> id_is k r) rows"

definition delete_where :: "ModelNotes list \<Rightarrow> int option \<Rightarrow> exn + ModelNotes list" where
  "delete_where rows k = (if \<not> bind_id k then Inl OverflowError else Inr (rows_without rows k))"

text \<open>The constraints of the table: ids and notes are unique.\<close>

definition table_ok :: "ModelNotes list \<Rightarrow> bool" where
  "table_ok rows = (distinct (map notes_id rows) \<and> distinct (map notes_note rows))"

section \<open>Record\<close>

record Record =
  self_text :: text_attr
  self_tags :: "Tag list"
  self_note_id :: "int option"

text \<open>\<open>[Tag(tag) for tag in tags]\<close>: the first tag that \<open>Tag\<close> rejects raises.\<close>

fun wrap_tags :: "collaborators \<Rightarrow> str list \<Rightarrow> exn + Tag list" where
  "wrap_tags cl [] = Inr []"
| "wrap_tags cl (t # ts) =
     (case Tag_init cl t of
        None \<Rightarrow> Inl (ValidationError t)
      | Some v \<Rightarrow> (case wrap_tags cl ts of Inl e \<Rightarrow> Inl e | Inr xs \<Rightarrow> Inr (Tag v # xs)))"

text \<open>\<open>not self.note_id\<close>: true of \<open>None\<close> and of \<open>0\<close>.\<close>

definition not_note_id :: "int option \<Rightarrow> bool" where
  "not_note_id k = (k = None \<or> k = Some 0)"

definition str_has_no_value :: str where
  "str_has_no_value = [39] @ ascii ''str'' @ [39] @ ascii '' object has no attribute '' @ [39] @ ascii ''value'' @ [39]"

definition note_exists_msg :: str where
  "note_exists_msg = ascii ''A note with this text already exists.''
                   @ ascii ''To change an existing note, use the <change-note> command.''"

text \<open>
  \<open>__save\<close>. A method returns the exception it raises (\<open>None\<close> when it returns), the
  object and the world as it leaves them. After a commit that failed the pending row is
  expunged from the session and its \<open>id\<close> reads \<open>None\<close>.
\<close>

definition save :: "collaborators \<Rightarrow> Record \<Rightarrow> world \<Rightarrow> exn option \<times> Record \<times> world" where
  "save cl self w =
     (let str_tags = json_dumps (map tag_value (self_tags self))
      in case self_text self of
           StrObj s \<Rightarrow> (Some (AttributeError str_has_no_value), self, w)
         | TextObj t \<Rightarrow>
             (case commit_insert cl (db_notes w) (text_value t) str_tags of
                Inr (record, rows) \<Rightarrow>
                  (None, self\<lparr>self_note_id := Some (notes_id record)\<rparr>, w\<lparr>db_notes := rows\<rparr>)
              | Inl e \<Rightarrow>
                  if orig e = unique_failed
                  then (Some (ValueError note_exists_msg), self, w)
                  else (None, self\<lparr>self_note_id := None\<rparr>, w\<lparr>stdout := stdout w @ [e]\<rparr>)))"

text \<open>
  \<open>__init__(self, text, tags, note_id)\<close> on a new instance: the initialised object, or
  the exception raised.
\<close>

definition Record_init ::
  "collaborators \<Rightarrow> str \<Rightarrow> str list option \<Rightarrow> int option \<Rightarrow> world \<Rightarrow> (exn + Record) \<times> world"
where
  "Record_init cl text tags note_id w =
     (case Text_init cl text of
        None \<Rightarrow> (Inl (ValidationError text), w)
      | Some v \<Rightarrow>
          (case (case tags of None \<Rightarrow> Inr [] | Some ts \<Rightarrow> if ts \<noteq> [] then wrap_tags cl ts else Inr []) of
             Inl e \<Rightarrow> (Inl e, w)
           | Inr tgs \<Rightarrow>
               (let self = \<lparr>self_text = TextObj (Text v), self_tags = tgs, self_note_id = note_id\<rparr>
                in if not_note_id (self_note_id self)
                   then (case save cl self w of
                           (Some e, self', w') \<Rightarrow> (Inl e, w')
                         | (None, self', w') \<Rightarrow> (Inr self', w'))
                   else (Inr self, w))))"

subsection \<open>The class statements and the class call\<close>

text \<open>
  Inside the body of a class \<open>C\<close> an identifier that starts with two underscores and
  does not end with two is a private name: the compiler replaces it by \<open>_C\<close> (the class
  name without leading underscores) followed by the identifier.
\<close>

definition mangle :: "string \<Rightarrow> string \<Rightarrow> string" where
  "mangle cls name =
     (if take 2 name = ''__'' \<and> take 2 (rev name) \<noteq> ''__''
      then ''_'' @ dropWhile (\<lambda>c. c = CHR ''_'') cls @ name
      else name)"

text \<open>
  A class statement: its name, the names its body defines under \<open>@abstractmethod\<close> and
  the other names it defines, all as written in the source.
\<close>

record class_body =
  class_name :: string
  abstract_defs :: "string list"
  other_defs :: "string list"

definition RecordABC :: class_body where
  "RecordABC =
     \<lparr>class_name = ''RecordABC'',
      abstract_defs = [''__save'', ''replace_text'', ''add_tags'', ''remove_record'', ''format_record''],
      other_defs = []\<rparr>"

definition Record_class :: class_body where
  "Record_class =
     \<lparr>class_name = ''Record'',
      abstract_defs = [],
      other_defs = [''__init__'', ''__save'', ''replace_text'', ''add_tags'', ''remove_record'',
                    ''format_record'', ''__repr__'']\<rparr>"

text \<open>The attribute names a class body binds, after mangling.\<close>

definition namespace :: "class_body \<Rightarrow> string list" where
  "namespace c = map (mangle (class_name c)) (abstract_defs c @ other_defs c)"

text \<open>
  \<open>ABCMeta\<close> computes \<open>__abstractmethods__\<close> of a new class: the names its body defines
  as abstract, and the abstract names of its base that the class still resolves to the
  abstract function, that is, that its own body does not bind. (\<open>Record\<close> lists
  \<open>RecordABC\<close> before \<open>DBSession\<close>, so an attribute of \<open>RecordABC\<close> is found before
  anything \<open>DBSession\<close> defines.)
\<close>

definition abstractmethods :: "string list \<Rightarrow> class_body \<Rightarrow> string list" where
  "abstractmethods inherited c =
     map (mangle (class_name c)) (abstract_defs c)
     @ filter (\<lambda>n. n \<notin> set (namespace c)) inherited"

definition Record_abstractmethods :: "string list" where
  "Record_abstractmethods = abstractmethods (abstractmethods [] RecordABC) Record_class"

text \<open>
  The expression \<open>Record(text, tags, note_id)\<close>: \<open>object.__new__\<close> allocates the
  instance, and raises \<open>TypeError\<close> for a class whose \<open>__abstractmethods__\<close> is not
  empty; then \<open>__init__\<close> runs on the new instance.
\<close>

definition Record_call ::
  "collaborators \<Rightarrow> str \<Rightarrow> str list option \<Rightarrow> int option \<Rightarrow> world \<Rightarrow> (exn + Record) \<times> world"
where
  "Record_call cl text tags note_id w =
     (if Record_abstractmethods \<noteq> [] then (Inl (TypeError Record_abstractmethods), w)
      else Record_init cl text tags note_id w)"

subsection \<open>The other methods\<close>

text \<open>
  Each of them opens a session, executes one statement and commits. An exception of
  the statement leaves the method; what the method assigned to the object before stays
  assigned.
\<close>

definition replace_text :: "Record \<Rightarrow> str \<Rightarrow> world \<Rightarrow> exn option \<times> Record \<times> world" where
  "replace_text self new_text w =
     (let self' = self\<lparr>self_text := StrObj new_text\<rparr>
      in case update_note (db_notes w) (self_note_id self') new_text of
           Inl e \<Rightarrow> (Some e, self', w)
         | Inr rows \<Rightarrow> (None, self', w\<lparr>db_notes := rows\<rparr>))"

definition add_tags :: "collaborators \<Rightarrow> Record \<Rightarrow> str list \<Rightarrow> world \<Rightarrow> exn option \<times> Record \<times> world" where
  "add_tags cl self new_tags w =
     (case wrap_tags cl new_tags of
        Inl e \<Rightarrow> (Some e, self, w)
      | Inr ts \<Rightarrow>
          (let self' = self\<lparr>self_tags := self_tags self @ ts\<rparr>;
               str_tags = json_dumps (map tag_value (self_tags self'))
           in case update_tags (db_notes w) (self_note_id self') str_tags of
                Inl e \<Rightarrow> (Some e, self', w)
              | Inr rows \<Rightarrow> (None, self', w\<lparr>db_notes := rows\<rparr>)))"

definition remove_record :: "Record \<Rightarrow> world \<Rightarrow> exn option \<times> Record \<times> world" where
  "remove_record self w =
     (case delete_where (db_notes w) (self_note_id self) of
        Inl e \<Rightarrow> (Some e, self, w)
      | Inr rows \<Rightarrow> (None, self, w\<lparr>db_notes := rows\<rparr>))"

text \<open>
  \<open>format_record\<close> reads the object only. The placeholder for no tags is U+2013;
  \<open>str(x.value)\<close> is the value itself; \<open>\n\t\<close> are the code points 10 and 9.
\<close>

definition format_record :: "Record \<Rightarrow> exn + str" where
  "format_record self =
     (let tags = (if self_tags self \<noteq> []
                  then join (ascii '', '') (map tag_value (self_tags self))
                  else [8211])
      in case self_text self of
           StrObj s \<Rightarrow> Inl (AttributeError str_has_no_value)
         | TextObj t \<Rightarrow> Inr (ascii ''Tags: '' @ tags @ [10, 9] @ ascii ''Note: '' @ text_value t @ [10]))"

section \<open>\<open>json.loads\<close> inverts \<open>json.dumps\<close>\<close>

lemma and_3ff: "(x::nat) AND 0x3ff = x mod 1024"
proof -
  have "x AND mask 10 = x mod 2 ^ 10"
    by (simp only: take_bit_eq_mod flip: take_bit_eq_mask)
  moreover have "(mask 10 :: nat) = 0x3ff" by (simp add: mask_eq_exp_minus_1)
  ultimately show ?thesis by simp
qed

lemma or_low_bits:
  assumes "y < 1024"
  shows "push_bit 10 (h::nat) OR y = h * 1024 + y"
proof -
  have y: "take_bit 10 y = y" using assms by (simp add: take_bit_nat_eq_self)
  have "push_bit 10 h AND take_bit 10 y = 0"
    by (rule bit_eqI) (auto simp: bit_simps)
  then have "push_bit 10 h + y = push_bit 10 h OR y"
    using y by (simp add: disjunctive_add_eq_or)
  then show ?thesis by (simp add: push_bit_eq_mult)
qed

lemma or_d800: "y < 1024 \<Longrightarrow> (0xd800::nat) OR y = 0xd800 + y"
  using or_low_bits [of y 54] by (simp add: push_bit_eq_mult)

lemma or_dc00: "y < 1024 \<Longrightarrow> (0xdc00::nat) OR y = 0xdc00 + y"
  using or_low_bits [of y 55] by (simp add: push_bit_eq_mult)

lemma low_bits_of_sum:
  assumes "y < 1024"
  shows "(k * 1024 + y) AND 0x3ff = (y::nat)"
  using assms by (simp add: and_3ff)

text \<open>The surrogate pair of a code point above the basic plane, and its inverse.\<close>

lemma surrogates:
  fixes c :: nat
  assumes "0x10000 \<le> c" and "c < 0x110000"
  shows "0xd800 OR (drop_bit 10 (c - 0x10000) AND 0x3ff) = 0xd800 + (c - 0x10000) div 1024"
    and "0xdc00 OR ((c - 0x10000) AND 0x3ff) = 0xdc00 + (c - 0x10000) mod 1024"
    and "(c - 0x10000) div 1024 < 1024"
proof -
  have n: "c - 0x10000 < 1048576" using assms by simp
  then show d: "(c - 0x10000) div 1024 < 1024" by simp
  have "drop_bit 10 (c - 0x10000) AND 0x3ff = (c - 0x10000) div 1024"
    using d by (simp add: and_3ff drop_bit_eq_div)
  then show "0xd800 OR (drop_bit 10 (c - 0x10000) AND 0x3ff) = 0xd800 + (c - 0x10000) div 1024"
    using d by (simp add: or_d800)
  show "0xdc00 OR ((c - 0x10000) AND 0x3ff) = 0xdc00 + (c - 0x10000) mod 1024"
    by (simp add: and_3ff or_dc00)
qed

lemma join_surrogates:
  assumes "h < 1024" and "l < 1024"
  shows "0x10000 + (push_bit 10 ((0xd800 + h) AND 0x3ff) OR ((0xdc00 + l) AND 0x3ff))
           = 0x10000 + h * 1024 + (l::nat)"
proof -
  have "(0xd800 + h) AND 0x3ff = h"
    using low_bits_of_sum [OF assms(1), of 54] by simp
  moreover have "(0xdc00 + l) AND 0x3ff = l"
    using low_bits_of_sum [OF assms(2), of 55] by simp
  ultimately show ?thesis using assms(2) by (simp add: or_low_bits)
qed

text \<open>Four hexadecimal digits.\<close>

lemma hex_value_digit: "d < 16 \<Longrightarrow> hex_value (hex_digit d) = Some d"
  by (auto simp: hex_value_def hex_digit_def)

lemma digits_compose:
  "e = a * 16 + b \<Longrightarrow> f = e * 16 + c \<Longrightarrow> n = f * 16 + d
     \<Longrightarrow> ((a * 16 + b) * 16 + c) * 16 + d = (n::nat)"
  by simp

lemma hex_recompose:
  "((n div 4096 * 16 + n div 256 mod 16) * 16 + n div 16 mod 16) * 16 + n mod 16 = (n::nat)"
proof -
  have q2: "n div 16 div 16 = n div 256" and q3: "n div 256 div 16 = n div 4096"
    by (simp_all flip: div_mult2_eq)
  have e: "n div 256 = n div 4096 * 16 + n div 256 mod 16"
    using div_mult_mod_eq [of "n div 256" 16] q3 by simp
  have f: "n div 16 = n div 256 * 16 + n div 16 mod 16"
    using div_mult_mod_eq [of "n div 16" 16] q2 by simp
  have n: "n = n div 16 * 16 + n mod 16"
    by simp
  show ?thesis by (rule digits_compose [OF e f n])
qed

lemma decode_hex4_hex4:
  assumes "n < 65536"
  shows "decode_hex4 (hex4 n @ rest) = Some (n, rest)"
proof -
  have top: "n div 4096 mod 16 = n div 4096" "n div 4096 < 16" using assms by simp_all
  have "decode_hex4 (hex4 n @ rest) =
          Some (((n div 4096 * 16 + n div 256 mod 16) * 16 + n div 16 mod 16) * 16 + n mod 16, rest)"
    by (simp add: hex4_def hex_value_digit top)
  then show ?thesis by (simp only: hex_recompose)
qed

text \<open>One escape, then one character as \<open>escape_char\<close> writes it.\<close>

lemma scanstring_escape:
  "scan_escape s = Some (u, s1) \<Longrightarrow> scanstring (92 # s) = consc u (scanstring s1)"
  by (simp add: consc_def)

lemma scan_escape_u:
  assumes "c < 65536" and "c < 0xd800 \<or> 0xdbff < c"
  shows "scan_escape (117 # hex4 c @ rest) = Some (c, rest)"
proof -
  have "\<not> (0xd800 \<le> c \<and> c \<le> 0xdbff \<and> take 2 rest = [92, 117])"
    using assms(2) by auto
  then show ?thesis
    using assms(1)
    by (simp only: scan_escape_def list.case decode_hex4_hex4 option.case prod.case
          if_True if_False refl)
qed

lemma scan_escape_pair:
  assumes "h < 1024" and "l < 1024"
  shows "scan_escape (117 # hex4 (0xd800 + h) @ [92, 117] @ hex4 (0xdc00 + l) @ rest)
           = Some (0x10000 + h * 1024 + l, rest)"
proof -
  have a: "decode_hex4 (hex4 (0xd800 + h) @ [92, 117] @ hex4 (0xdc00 + l) @ rest)
             = Some (0xd800 + h, [92, 117] @ hex4 (0xdc00 + l) @ rest)"
    using assms(1) by (intro decode_hex4_hex4) simp
  have b: "decode_hex4 (hex4 (0xdc00 + l) @ rest) = Some (0xdc00 + l, rest)"
    using assms(2) by (intro decode_hex4_hex4) simp
  have c: "0xd800 \<le> 0xd800 + h \<and> 0xd800 + h \<le> 0xdbff \<and>
           take 2 ([92, 117] @ hex4 (0xdc00 + l) @ rest) = [92, 117]"
    using assms(1) by simp
  have d: "drop 2 ([92, 117] @ hex4 (0xdc00 + l) @ rest) = hex4 (0xdc00 + l) @ rest"
    by simp
  have e: "0xdc00 \<le> 0xdc00 + l \<and> 0xdc00 + l \<le> 0xdfff"
    using assms(2) by simp
  show ?thesis
    by (simp only: scan_escape_def list.case a b c d e option.case prod.case if_True refl
          simp_thms join_surrogates [OF assms])
qed

lemma scanstring_escape_char:
  assumes "scalar c"
  shows "scanstring (escape_char c @ rest) = consc c (scanstring rest)"
proof -
  consider (bs) "c = 92" | (qu) "c = 34" | (b) "c = 8" | (f) "c = 12" | (n) "c = 10"
    | (r) "c = 13" | (t) "c = 9"
    | (plain) "c \<noteq> 92" "c \<noteq> 34" "32 \<le> c" "c \<le> 126"
    | (u) "c \<notin> {92, 34, 8, 12, 10, 13, 9}" "\<not> (32 \<le> c \<and> c \<le> 126)" "c < 0x10000"
    | (pair) "0x10000 \<le> c"
    by force
  then show ?thesis
  proof cases
    case bs
    then show ?thesis by (simp add: escape_char_def scan_escape_def consc_def)
  next
    case qu
    then show ?thesis by (simp add: escape_char_def scan_escape_def consc_def)
  next
    case b
    then show ?thesis by (simp add: escape_char_def scan_escape_def consc_def)
  next
    case f
    then show ?thesis by (simp add: escape_char_def scan_escape_def consc_def)
  next
    case n
    then show ?thesis by (simp add: escape_char_def scan_escape_def consc_def)
  next
    case r
    then show ?thesis by (simp add: escape_char_def scan_escape_def consc_def)
  next
    case t
    then show ?thesis by (simp add: escape_char_def scan_escape_def consc_def)
  next
    case plain
    then have "escape_char c = [c]"
      by (auto simp add: escape_char_def)
    then show ?thesis using plain by (simp add: consc_def)
  next
    case u
    then have e: "escape_char c = [92, 117] @ hex4 c"
      by (simp add: escape_char_def)
    have "c < 0xd800 \<or> 0xdbff < c" using assms by (auto simp: scalar_def)
    then have "scan_escape (117 # hex4 c @ rest) = Some (c, rest)"
      using u(3) by (intro scan_escape_u) simp_all
    then show ?thesis
      unfolding e by (simp only: append_Cons append_Nil scanstring_escape)
  next
    case pair
    then have lt: "c < 0x110000" using assms by (auto simp: scalar_def)
    let ?n = "c - 0x10000"
    have e: "escape_char c =
        [92, 117] @ hex4 (0xd800 + ?n div 1024) @ [92, 117] @ hex4 (0xdc00 + ?n mod 1024)"
      using pair surrogates(1,2) [OF pair lt]
      by (simp add: escape_char_def Let_def)
    have "scan_escape (117 # hex4 (0xd800 + ?n div 1024) @ [92, 117]
                         @ hex4 (0xdc00 + ?n mod 1024) @ rest)
            = Some (0x10000 + ?n div 1024 * 1024 + ?n mod 1024, rest)"
      using surrogates(3) [OF pair lt] by (intro scan_escape_pair) simp_all
    moreover have "0x10000 + ?n div 1024 * 1024 + ?n mod 1024 = c"
      using pair by simp
    ultimately have "scan_escape (117 # hex4 (0xd800 + ?n div 1024) @ [92, 117]
                                    @ hex4 (0xdc00 + ?n mod 1024) @ rest)
            = Some (c, rest)"
      by simp
    then show ?thesis
      unfolding e by (simp only: append_Cons append_Nil append_assoc scanstring_escape)
  qed
qed

text \<open>A string, then the items of an array, then the array.\<close>

lemma scanstring_body:
  "\<forall>c \<in> set s. scalar c \<Longrightarrow> scanstring (concat (map escape_char s) @ 34 # rest) = Some (s, rest)"
proof (induction s)
  case Nil
  then show ?case by simp
next
  case (Cons c s)
  then have "scanstring (escape_char c @ concat (map escape_char s) @ 34 # rest)
               = consc c (Some (s, rest))"
    by (simp add: scanstring_escape_char)
  then show ?case by (simp add: consc_def)
qed

lemma parse_items_quote:
  "parse_items (34 # s1) =
     (case scanstring s1 of
        None \<Rightarrow> None
      | Some (x, s2) \<Rightarrow>
          (case skip_ws s2 of
             [] \<Rightarrow> None
           | c # s3 \<Rightarrow>
               if c = 93 then Some ([x], s3)
               else if c = 44 then
                 (case parse_items (skip_ws s3) of
                    None \<Rightarrow> None
                  | Some (xs, rest) \<Rightarrow> Some (x # xs, rest))
               else None))"
  by (subst parse_items.simps) simp

lemma skip_ws_no: "c \<noteq> 32 \<Longrightarrow> c \<noteq> 9 \<Longrightarrow> c \<noteq> 10 \<Longrightarrow> c \<noteq> 13 \<Longrightarrow> skip_ws (c # s) = c # s"
  by (simp add: skip_ws_def)

lemma skip_ws_space: "skip_ws (32 # s) = skip_ws s"
  by (simp add: skip_ws_def)

lemma skip_ws_Nil: "skip_ws [] = []"
  by (simp add: skip_ws_def)

lemma join_starts_with_quote:
  "xs \<noteq> [] \<Longrightarrow> \<exists>t. join (ascii '', '') (map encode_basestring_ascii xs) @ rest = 34 # t"
  by (induction "ascii '', ''" "map encode_basestring_ascii xs" arbitrary: xs rule: join.induct)
     (auto simp: encode_basestring_ascii_def)

lemma parse_items_join:
  assumes "xs \<noteq> []" and "\<forall>x \<in> set xs. \<forall>c \<in> set x. scalar c"
  shows "parse_items (join (ascii '', '') (map encode_basestring_ascii xs) @ 93 # rest) = Some (xs, rest)"
  using assms
proof (induction xs)
  case Nil
  then show ?case by simp
next
  case (Cons x xs)
  have x: "\<forall>c \<in> set x. scalar c" using Cons.prems(2) by simp
  show ?case
  proof (cases xs)
    case Nil
    have "parse_items (34 # concat (map escape_char x) @ 34 # 93 # rest) = Some ([x], rest)"
      by (simp only: parse_items_quote scanstring_body [OF x] option.case prod.case)
         (simp add: skip_ws_no)
    then show ?thesis using Nil by (simp add: encode_basestring_ascii_def)
  next
    case (Cons y ys)
    then have ne: "xs \<noteq> []" by simp
    have all: "\<forall>x \<in> set xs. \<forall>c \<in> set x. scalar c" using Cons.prems(2) by simp
    let ?tail = "join (ascii '', '') (map encode_basestring_ascii xs) @ 93 # rest"
    have IH: "parse_items ?tail = Some (xs, rest)"
      using Cons.IH [OF ne all] .
    obtain t where t: "?tail = 34 # t"
      using join_starts_with_quote [OF ne] by blast
    have sk: "skip_ws (32 # ?tail) = ?tail"
      unfolding t by (simp add: skip_ws_space skip_ws_no)
    have "parse_items (34 # concat (map escape_char x) @ 34 # 44 # 32 # ?tail) = Some (x # xs, rest)"
      by (simp only: parse_items_quote scanstring_body [OF x] option.case prod.case)
         (simp add: skip_ws_no sk IH del: append_assoc)
    moreover have "join (ascii '', '') (map encode_basestring_ascii (x # xs)) @ 93 # rest
                     = 34 # concat (map escape_char x) @ 34 # 44 # 32 # ?tail"
      using Cons by (simp add: encode_basestring_ascii_def ascii_def)
    ultimately show ?thesis by simp
  qed
qed

text \<open>
  Decoding the encoding of a list of strings gives the list back, when no string holds a
  surrogate code point (a \<open>str\<close> with a surrogate pair in two code points comes back as
  one character in Python too).
\<close>

lemma json_loads_json_dumps:
  assumes "\<forall>x \<in> set xs. \<forall>c \<in> set x. scalar c"
  shows "json_loads (json_dumps xs) = Some xs"
proof (cases xs)
  case Nil
  then show ?thesis
    by (simp add: json_loads_def json_dumps_def skip_ws_def)
next
  case (Cons y ys)
  then have ne: "xs \<noteq> []" by simp
  let ?body = "join (ascii '', '') (map encode_basestring_ascii xs) @ [93]"
  obtain t where t: "?body = 34 # t"
    using join_starts_with_quote [OF ne] by blast
  have p: "parse_items ?body = Some (xs, [])"
    using parse_items_join [OF ne assms, of "[]"] by simp
  have "json_loads (91 # ?body) = Some xs"
    unfolding json_loads_def
    by (simp add: skip_ws_no skip_ws_Nil t p [unfolded t])
  then show ?thesis by (simp add: json_dumps_def)
qed

lemma json_dumps_inj:
  assumes "\<forall>x \<in> set xs. \<forall>c \<in> set x. scalar c" and "\<forall>x \<in> set ys. \<forall>c \<in> set x. scalar c"
      and "json_dumps xs = json_dumps ys"
  shows "xs = ys"
proof -
  have "Some xs = json_loads (json_dumps xs)"
    using json_loads_json_dumps [OF assms(1)] by simp
  also have "\<dots> = json_loads (json_dumps ys)"
    by (simp only: assms(3))
  also have "\<dots> = Some ys"
    by (rule json_loads_json_dumps [OF assms(2)])
  finally show ?thesis by simp
qed

section \<open>Facts about the table\<close>

lemma next_rowid_fresh: "r \<in> set rows \<Longrightarrow> notes_id r < next_rowid rows"
proof -
  assume r: "r \<in> set rows"
  then have ne: "rows \<noteq> []" by auto
  have "notes_id r \<le> Max (set (map notes_id rows))"
    using r by (intro Max_ge) auto
  then show ?thesis using ne by (simp add: next_rowid_def)
qed

lemma next_rowid_not_stored: "next_rowid rows \<notin> set (map notes_id rows)"
  using next_rowid_fresh by fastforce

lemma set_note_ids: "map notes_id (set_note rows k v) = map notes_id rows"
  by (induction rows) (simp_all add: set_note_def)

lemma set_note_tags: "map notes_tags (set_note rows k v) = map notes_tags rows"
  by (induction rows) (simp_all add: set_note_def)

lemma set_note_hit: "r \<in> set (set_note rows k v) \<Longrightarrow> id_is k r \<Longrightarrow> notes_note r = v"
  by (auto simp: set_note_def id_is_def)

lemma set_note_miss: "r \<in> set (set_note rows k v) \<Longrightarrow> \<not> id_is k r \<Longrightarrow> r \<in> set rows"
  by (auto simp: set_note_def id_is_def)

lemma set_note_no_row: "\<forall>r\<in>set rows. \<not> id_is k r \<Longrightarrow> set_note rows k v = rows"
  by (induction rows) (simp_all add: set_note_def)

lemma set_note_keeps: "r \<in> set rows \<Longrightarrow> \<not> id_is k r \<Longrightarrow> r \<in> set (set_note rows k v)"
  by (force simp: set_note_def)

lemma set_tags_ids: "map notes_id (set_tags rows k v) = map notes_id rows"
  by (induction rows) (simp_all add: set_tags_def)

lemma set_tags_notes: "map notes_note (set_tags rows k v) = map notes_note rows"
  by (induction rows) (simp_all add: set_tags_def)




lemma set_tags_no_row: "\<forall>r\<in>set rows. \<not> id_is k r \<Longrightarrow> set_tags rows k v = rows"
  by (induction rows) (simp_all add: set_tags_def)

lemma rows_without_gone: "r \<in> set (rows_without rows k) \<Longrightarrow> \<not> id_is k r"
  by (simp add: rows_without_def)

lemma rows_without_keeps: "r \<in> set rows \<Longrightarrow> \<not> id_is k r \<Longrightarrow> r \<in> set (rows_without rows k)"
  by (simp add: rows_without_def)

lemma rows_without_no_row: "\<forall>r\<in>set rows. \<not> id_is k r \<Longrightarrow> rows_without rows k = rows"
  by (simp add: rows_without_def)

text \<open>A statement that matches no row changes nothing, whatever it raises.\<close>

lemma update_note_no_row:
  "\<forall>r\<in>set rows. \<not> id_is k r \<Longrightarrow>
     update_note rows k v =
       (if \<not> bind_text v then Inl UnicodeEncodeError
        else if \<not> bind_id k then Inl OverflowError
        else Inr rows)"
  by (simp add: update_note_def set_note_no_row filter_empty_conv)

lemma update_tags_no_row:
  "\<forall>r\<in>set rows. \<not> id_is k r \<Longrightarrow>
     update_tags rows k v =
       (if \<not> bind_text v then Inl UnicodeEncodeError
        else if \<not> bind_id k then Inl OverflowError
        else Inr rows)"
  by (simp add: update_tags_def set_tags_no_row)

lemma delete_where_no_row:
  "\<forall>r\<in>set rows. \<not> id_is k r \<Longrightarrow>
     delete_where rows k = (if \<not> bind_id k then Inl OverflowError else Inr rows)"
  by (simp add: delete_where_def rows_without_no_row)


text \<open>
  Every statement of the methods keeps the constraints of the table: what is stored
  never has two rows with one id or one note.
\<close>

lemma table_ok_insert:
  assumes "table_ok rows" and "commit_insert cl rows note tags = Inr (row, rows')"
  shows "table_ok rows'"
proof -
  from assms(2) have nin: "note \<notin> set (map notes_note rows)"
    and r: "rows' = rows @ [\<lparr>notes_id = next_rowid rows, notes_note = note, notes_tags = tags\<rparr>]"
    by (auto simp: commit_insert_def Let_def split: option.splits if_splits)
  show ?thesis
    using assms(1) nin next_rowid_not_stored [of rows] unfolding r table_ok_def by simp
qed

lemma table_ok_update_tags:
  "table_ok rows \<Longrightarrow> update_tags rows k v = Inr rows' \<Longrightarrow> table_ok rows'"
  by (auto simp: table_ok_def update_tags_def set_tags_ids set_tags_notes split: if_splits)

lemma table_ok_delete:
  "table_ok rows \<Longrightarrow> delete_where rows k = Inr rows' \<Longrightarrow> table_ok rows'"
  by (auto simp: table_ok_def delete_where_def rows_without_def distinct_map_filter split: if_splits)

lemma set_note_distinct:
  assumes "distinct (map notes_id rows)" and "distinct (map notes_note rows)"
      and "v \<notin> set (map notes_note (filter (\<lambda>r. \<not> id_is k r) rows))"
  shows "distinct (map notes_note (set_note rows k v))"
  using assms
proof (induction rows)
  case Nil
  then show ?case by (simp add: set_note_def)
next
  case (Cons a rows)
  have IH: "distinct (map notes_note (set_note rows k v))"
    using Cons by (auto split: if_splits)
  show ?case
  proof (cases "id_is k a")
    case True
    then have none: "\<forall>r\<in>set rows. \<not> id_is k r"
      using Cons.prems(1) by (auto simp: id_is_def)
    then have same: "set_note rows k v = rows" by (rule set_note_no_row)
    have "filter (\<lambda>r. \<not> id_is k r) rows = rows" using none by (simp add: filter_id_conv)
    then have "v \<notin> set (map notes_note rows)" using Cons.prems(3) True by simp
    then show ?thesis using True same Cons.prems(2) by (simp add: set_note_def)
  next
    case False
    have "notes_note a \<notin> set (map notes_note (set_note rows k v))"
    proof
      assume "notes_note a \<in> set (map notes_note (set_note rows k v))"
      then obtain r where r: "r \<in> set (set_note rows k v)" "notes_note r = notes_note a" by auto
      show False
      proof (cases "id_is k r")
        case True
        then have "notes_note r = v" using r(1) by (rule set_note_hit [rotated]) 
        then show False using Cons.prems(3) False r(2) by simp
      next
        case F: False
        then have "r \<in> set rows" using r(1) set_note_miss by blast
        then show False using Cons.prems(2) r(2) by (metis distinct.simps(2) image_eqI list.simps(9) set_map)
      qed
    qed
    then show ?thesis using IH False by (simp add: set_note_def)
  qed
qed

lemma table_ok_update_note:
  assumes "table_ok rows" and "update_note rows k v = Inr rows'"
  shows "table_ok rows'"
proof (cases "filter (id_is k) rows = []")
  case True
  then have "\<forall>r\<in>set rows. \<not> id_is k r" by (simp add: filter_empty_conv)
  then show ?thesis using assms update_note_no_row [of rows k v] by (simp split: if_splits)
next
  case False
  then have "v \<notin> set (map notes_note (filter (\<lambda>r. \<not> id_is k r) rows))" and "rows' = set_note rows k v"
    using assms(2) by (auto simp: update_note_def split: if_splits)
  then show ?thesis
    using assms(1) set_note_distinct [of rows v k] by (simp add: table_ok_def set_note_ids)
qed

section \<open>The class call\<close>

lemma Record_abstractmethods: "Record_abstractmethods = [''_RecordABC__save'']"
  by (simp add: Record_abstractmethods_def abstractmethods_def RecordABC_def Record_class_def
        namespace_def mangle_def)

text \<open>
  C2 fails on the code. \<open>RecordABC\<close> declares \<open>__save\<close> abstract, which its class body
  binds as \<open>_RecordABC__save\<close>; the \<open>__save\<close> of \<open>Record\<close> is bound as
  \<open>_Record__save\<close> and overrides nothing. \<open>Record\<close> stays abstract, and every
  \<open>Record(...)\<close> raises \<open>TypeError\<close> before \<open>__init__\<close> runs: whatever the text, no
  row is persisted and there is no object whose \<open>note_id\<close> could be set.
\<close>

theorem Record_call_raises:
  "Record_call cl text tags note_id w = (Inl (TypeError [''_RecordABC__save'']), w)"
  by (simp add: Record_call_def Record_abstractmethods)

theorem Record_call_raises_witness:
  "Record_call spec_collaborators (ascii ''buy milk'') None None \<lparr>db_notes = [], stdout = []\<rparr>
     = (Inl (TypeError [''_RecordABC__save'']), \<lparr>db_notes = [], stdout = []\<rparr>)"
  using Record_call_raises [of spec_collaborators "ascii ''buy milk''" None None
      "\<lparr>db_notes = [], stdout = []\<rparr>"]
  by simp

section \<open>\<open>__init__\<close> and the initial insert\<close>

text \<open>
  The rest is about the methods as they run on an instance, \<open>__init__\<close> among them: on
  an instance of a subclass that binds \<open>_RecordABC__save\<close>, they are the code that runs.

  \<open>tags if tags else []\<close> guards the comprehension; wrapping the empty list gives the
  same result, so the tags argument can be read as a list.
\<close>

lemma wrap_arg:
  "(case tags of None \<Rightarrow> Inr [] | Some ts \<Rightarrow> if ts \<noteq> [] then wrap_tags cl ts else Inr [])
     = wrap_tags cl (case tags of None \<Rightarrow> [] | Some ts \<Rightarrow> ts)"
  by (cases tags) auto

lemma Record_init_save:
  assumes "Text_init cl text = Some v"
      and "wrap_tags cl (case tags of None \<Rightarrow> [] | Some ts \<Rightarrow> ts) = Inr tgs"
      and "not_note_id note_id"
  shows "Record_init cl text tags note_id w =
           (case save cl \<lparr>self_text = TextObj (Text v), self_tags = tgs, self_note_id = note_id\<rparr> w of
              (Some e, self', w') \<Rightarrow> (Inl e, w')
            | (None, self', w') \<Rightarrow> (Inr self', w'))"
  using assms by (simp add: Record_init_def wrap_arg)

text \<open>
  C1, as the claim states it, fails on the message: when a row holds the text,
  \<open>__init__\<close> without an identifier raises a \<open>ValueError\<close> whose message has no space
  after "exists." and names the command \<open><change-note>\<close>.
\<close>

theorem Record_init_duplicate_note_message_counterexample:
  "fst (Record_init spec_collaborators (ascii ''buy milk'') None None
          \<lparr>db_notes = [\<lparr>notes_id = 1, notes_note = ascii ''buy milk'', notes_tags = ascii ''[]''\<rparr>],
            stdout = []\<rparr>)
     = Inl (ValueError (ascii
         ''A note with this text already exists.To change an existing note, use the <change-note> command.''))
 \<and> fst (Record_init spec_collaborators (ascii ''buy milk'') None None
          \<lparr>db_notes = [\<lparr>notes_id = 1, notes_note = ascii ''buy milk'', notes_tags = ascii ''[]''\<rparr>],
            stdout = []\<rparr>)
     \<noteq> Inl (ValueError (ascii
         ''A note with this text already exists. To change an existing note, use the change-note command.''))"
  by (simp add: Record_init_def save_def commit_insert_def spec_collaborators_def nonempty_def
        not_note_id_def unique_failed_def note_exists_msg_def ascii_def Let_def)

text \<open>
  C1 (amended): if the commit of the initial insert fails on the uniqueness of \<open>note\<close>
  (the integrity error whose \<open>orig\<close> reads "UNIQUE constraint failed: notes.note"),
  \<open>__init__\<close> raises a \<open>ValueError\<close> whose message starts with "A note with this text
  already exists." and ends with "To change an existing note, use the <change-note>
  command.", and the world is the one before the call: every stored row, the one with
  that text among them, is untouched and nothing is printed.
\<close>

theorem Record_init_duplicate_note:
  assumes "Text_init cl text = Some v"
      and "wrap_tags cl (case tags of None \<Rightarrow> [] | Some ts \<Rightarrow> ts) = Inr tgs"
      and "not_note_id note_id"
      and "commit_insert cl (db_notes w) v (json_dumps (map tag_value tgs)) = Inl e"
      and "orig e = unique_failed"
  shows "\<exists>m. Record_init cl text tags note_id w = (Inl (ValueError m), w)
           \<and> prefix (ascii ''A note with this text already exists.'') m
           \<and> suffix (ascii ''To change an existing note, use the <change-note> command.'') m"
proof -
  let ?self = "\<lparr>self_text = TextObj (Text v), self_tags = tgs, self_note_id = note_id\<rparr>"
  have "save cl ?self w = (Some (ValueError note_exists_msg), ?self, w)"
    using assms(4,5) by (simp add: save_def Let_def)
  then have "Record_init cl text tags note_id w = (Inl (ValueError note_exists_msg), w)"
    using Record_init_save [OF assms(1,2,3), of w] by simp
  moreover have "prefix (ascii ''A note with this text already exists.'') note_exists_msg"
    unfolding note_exists_msg_def by (rule prefixI) simp
  moreover have "suffix (ascii ''To change an existing note, use the <change-note> command.'') note_exists_msg"
    unfolding note_exists_msg_def by (rule suffixI) simp
  ultimately show ?thesis by blast
qed

theorem Record_init_duplicate_note_witness:
  "\<exists>m. Record_init spec_collaborators (ascii ''buy milk'') None None
          \<lparr>db_notes = [\<lparr>notes_id = 1, notes_note = ascii ''buy milk'', notes_tags = ascii ''[]''\<rparr>],
            stdout = []\<rparr>
        = (Inl (ValueError m),
           \<lparr>db_notes = [\<lparr>notes_id = 1, notes_note = ascii ''buy milk'', notes_tags = ascii ''[]''\<rparr>],
             stdout = []\<rparr>)
      \<and> prefix (ascii ''A note with this text already exists.'') m
      \<and> suffix (ascii ''To change an existing note, use the <change-note> command.'') m"
  using Record_init_duplicate_note [of spec_collaborators "ascii ''buy milk''" "ascii ''buy milk''"
      None "[]" None
      "\<lparr>db_notes = [\<lparr>notes_id = 1, notes_note = ascii ''buy milk'', notes_tags = ascii ''[]''\<rparr>],
        stdout = []\<rparr>"
      "IntegrityError unique_failed"]
  by (simp add: spec_collaborators_def nonempty_def ascii_def not_note_id_def commit_insert_def)

text \<open>
  What the spec expects of a construction is what \<open>__init__\<close> does once it runs. For a
  text that \<open>Text\<close> accepts and whose value no row holds, \<open>__init__\<close> without an
  identifier returns when \<open>Tag\<close> accepts the tags and the commit raises no other
  integrity error. It then has appended exactly one row to the table, holding the
  validated text and the JSON encoding of the tag values, and \<open>note_id\<close> is the id of
  that row, an id no earlier row has.
\<close>

lemma Record_init_persists_one_row:
  assumes "Text_init cl text = Some v"
      and "wrap_tags cl (case tags of None \<Rightarrow> [] | Some ts \<Rightarrow> ts) = Inr tgs"
      and "v \<notin> set (map notes_note (db_notes w))"
      and "other_integrity cl v (json_dumps (map tag_value tgs)) = None"
  shows "Record_init cl text tags None w =
           (Inr \<lparr>self_text = TextObj (Text v), self_tags = tgs,
                 self_note_id = Some (next_rowid (db_notes w))\<rparr>,
            w\<lparr>db_notes := db_notes w @
                 [\<lparr>notes_id = next_rowid (db_notes w), notes_note = v,
                   notes_tags = json_dumps (map tag_value tgs)\<rparr>]\<rparr>)
       \<and> next_rowid (db_notes w) \<notin> set (map notes_id (db_notes w))"
proof -
  let ?self = "\<lparr>self_text = TextObj (Text v), self_tags = tgs, self_note_id = None\<rparr>"
  have "save cl ?self w =
      (None, ?self\<lparr>self_note_id := Some (next_rowid (db_notes w))\<rparr>,
        w\<lparr>db_notes := db_notes w @
                 [\<lparr>notes_id = next_rowid (db_notes w), notes_note = v,
                   notes_tags = json_dumps (map tag_value tgs)\<rparr>]\<rparr>)"
    using assms(3,4) by (simp add: save_def commit_insert_def Let_def)
  then show ?thesis
    using Record_init_save [OF assms(1,2), of None w] next_rowid_not_stored [of "db_notes w"]
    by (simp add: not_note_id_def)
qed

lemma Record_init_persists_one_row_example:
  "Record_init spec_collaborators (ascii ''buy milk'') (Some [ascii ''home'', ascii ''shop'']) None
       \<lparr>db_notes = [], stdout = []\<rparr>
     = (Inr \<lparr>self_text = TextObj (Text (ascii ''buy milk'')),
             self_tags = [Tag (ascii ''home''), Tag (ascii ''shop'')], self_note_id = Some 1\<rparr>,
        \<lparr>db_notes = [\<lparr>notes_id = 1, notes_note = ascii ''buy milk'',
                       notes_tags = [91, 34] @ ascii ''home'' @ [34] @ ascii '', '' @ [34]
                                    @ ascii ''shop'' @ [34, 93]\<rparr>],
          stdout = []\<rparr>)"
  using Record_init_persists_one_row [of spec_collaborators "ascii ''buy milk''" "ascii ''buy milk''"
      "Some [ascii ''home'', ascii ''shop'']" "[Tag (ascii ''home''), Tag (ascii ''shop'')]"
      "\<lparr>db_notes = [], stdout = []\<rparr>"]
  by (simp add: spec_collaborators_def nonempty_def ascii_def next_rowid_def json_dumps_def
        encode_basestring_ascii_def escape_char_def)

text \<open>
  C3, as the claim states it, fails for the identifier 0: \<open>not self.note_id\<close> holds of
  it, so \<open>__init__\<close> saves, and the object gets the id of the new row.
\<close>

theorem Record_init_with_id_zero_counterexample:
  "Record_init spec_collaborators (ascii ''buy milk'') None (Some 0) \<lparr>db_notes = [], stdout = []\<rparr>
     = (Inr \<lparr>self_text = TextObj (Text (ascii ''buy milk'')), self_tags = [], self_note_id = Some 1\<rparr>,
        \<lparr>db_notes = [\<lparr>notes_id = 1, notes_note = ascii ''buy milk'', notes_tags = ascii ''[]''\<rparr>],
          stdout = []\<rparr>)"
  by (simp add: Record_init_def save_def commit_insert_def spec_collaborators_def nonempty_def
        not_note_id_def next_rowid_def json_dumps_def ascii_def Let_def)

text \<open>
  C3 (amended): \<open>__init__\<close> with a note_id other than 0 performs no save. It leaves the
  world as it is, and its result is the validation error of \<open>Text\<close> or \<open>Tag\<close>, or else
  the object that holds the wrapped text, the wrapped tags and the identifier as given.
\<close>

theorem Record_init_with_id:
  assumes "k \<noteq> 0"
  shows "Record_init cl text tags (Some k) w =
           (case Text_init cl text of
              None \<Rightarrow> Inl (ValidationError text)
            | Some v \<Rightarrow>
                (case wrap_tags cl (case tags of None \<Rightarrow> [] | Some ts \<Rightarrow> ts) of
                   Inl e \<Rightarrow> Inl e
                 | Inr tgs \<Rightarrow> Inr \<lparr>self_text = TextObj (Text v), self_tags = tgs,
                                   self_note_id = Some k\<rparr>),
            w)"
  using assms
  by (simp add: Record_init_def wrap_arg not_note_id_def Let_def split: option.splits sum.splits)

theorem Record_init_with_id_witness:
  "Record_init spec_collaborators (ascii ''buy milk'') (Some [ascii ''home'']) (Some 7)
       \<lparr>db_notes = [], stdout = []\<rparr>
     = (Inr \<lparr>self_text = TextObj (Text (ascii ''buy milk'')), self_tags = [Tag (ascii ''home'')],
             self_note_id = Some 7\<rparr>,
        \<lparr>db_notes = [], stdout = []\<rparr>)"
  using Record_init_with_id [of 7 spec_collaborators "ascii ''buy milk''" "Some [ascii ''home'']"
      "\<lparr>db_notes = [], stdout = []\<rparr>"]
  by (simp add: spec_collaborators_def nonempty_def ascii_def)

text \<open>
  C8: if the commit of the initial insert raises an integrity error whose \<open>orig\<close> is not
  the uniqueness message, the error is printed and not raised: \<open>__save\<close> returns to
  \<open>__init__\<close>, which returns the object; its \<open>note_id\<close> is \<open>None\<close>, no row is stored
  and the error is the one addition to the output.
\<close>

theorem Record_init_other_integrity_error:
  assumes "Text_init cl text = Some v"
      and "wrap_tags cl (case tags of None \<Rightarrow> [] | Some ts \<Rightarrow> ts) = Inr tgs"
      and "not_note_id note_id"
      and "commit_insert cl (db_notes w) v (json_dumps (map tag_value tgs)) = Inl e"
      and "orig e \<noteq> unique_failed"
  shows "Record_init cl text tags note_id w =
           (Inr \<lparr>self_text = TextObj (Text v), self_tags = tgs, self_note_id = None\<rparr>,
            w\<lparr>stdout := stdout w @ [e]\<rparr>)"
proof -
  let ?self = "\<lparr>self_text = TextObj (Text v), self_tags = tgs, self_note_id = note_id\<rparr>"
  have "save cl ?self w = (None, ?self\<lparr>self_note_id := None\<rparr>, w\<lparr>stdout := stdout w @ [e]\<rparr>)"
    using assms(4,5) by (simp add: save_def Let_def)
  then show ?thesis
    using Record_init_save [OF assms(1,2,3), of w] by simp
qed

theorem Record_init_other_integrity_error_witness:
  "Record_init
       (spec_collaborators\<lparr>other_integrity :=
          (\<lambda>note tags. Some (IntegrityError (ascii ''NOT NULL constraint failed: notes.owner'')))\<rparr>)
       (ascii ''buy milk'') None None \<lparr>db_notes = [], stdout = []\<rparr>
     = (Inr \<lparr>self_text = TextObj (Text (ascii ''buy milk'')), self_tags = [], self_note_id = None\<rparr>,
        \<lparr>db_notes = [],
          stdout = [IntegrityError (ascii ''NOT NULL constraint failed: notes.owner'')]\<rparr>)"
  using Record_init_other_integrity_error [of
      "spec_collaborators\<lparr>other_integrity :=
          (\<lambda>note tags. Some (IntegrityError (ascii ''NOT NULL constraint failed: notes.owner'')))\<rparr>"
      "ascii ''buy milk''" "ascii ''buy milk''" None "[]" None "\<lparr>db_notes = [], stdout = []\<rparr>"
      "IntegrityError (ascii ''NOT NULL constraint failed: notes.owner'')"]
  by (simp add: spec_collaborators_def nonempty_def ascii_def not_note_id_def commit_insert_def
        unique_failed_def)

section \<open>format_record\<close>

text \<open>
  C7: \<open>format_record\<close> is a function of the object alone (it takes no world and returns
  none). On a Record with the tag values x, y and the text value hello it returns
  "Tags: x, y\n\tNote: hello\n", and on one with no tags "Tags: \<open>U+2013\<close>\n\tNote: hello\n".
\<close>

theorem format_record_examples:
  "(map tag_value (self_tags r) = [ascii ''x'', ascii ''y'']
      \<and> self_text r = TextObj (Text (ascii ''hello''))
      \<longrightarrow> format_record r = Inr (ascii ''Tags: x, y'' @ [10, 9] @ ascii ''Note: hello'' @ [10]))
 \<and> (self_tags r = [] \<and> self_text r = TextObj (Text (ascii ''hello''))
      \<longrightarrow> format_record r = Inr (ascii ''Tags: '' @ [8211] @ [10, 9] @ ascii ''Note: hello'' @ [10]))"
  by (auto simp: format_record_def ascii_def)

theorem format_record_examples_witness:
  "format_record \<lparr>self_text = TextObj (Text (ascii ''hello'')),
                  self_tags = [Tag (ascii ''x''), Tag (ascii ''y'')], self_note_id = Some 7\<rparr>
     = Inr (ascii ''Tags: x, y'' @ [10, 9] @ ascii ''Note: hello'' @ [10])
 \<and> format_record \<lparr>self_text = TextObj (Text (ascii ''hello'')), self_tags = [], self_note_id = None\<rparr>
     = Inr (ascii ''Tags: '' @ [8211] @ [10, 9] @ ascii ''Note: hello'' @ [10])"
  using format_record_examples [of "\<lparr>self_text = TextObj (Text (ascii ''hello'')),
                  self_tags = [Tag (ascii ''x''), Tag (ascii ''y'')], self_note_id = Some 7\<rparr>"]
        format_record_examples [of "\<lparr>self_text = TextObj (Text (ascii ''hello'')), self_tags = [],
                  self_note_id = None\<rparr>"]
  by simp

text \<open>
  C10: whatever \<open>replace_text\<close> does to the table, it leaves the raw string in
  \<open>self.text\<close>, and \<open>format_record\<close> on that object raises the \<open>AttributeError\<close> of
  \<open>str\<close> having no \<open>value\<close>; \<open>format_record\<close> returns a string exactly on the Records
  whose \<open>text\<close> is a \<open>Text\<close>.
\<close>

theorem format_record_after_replace_text:
  "self_text (fst (snd (replace_text self new_text w))) = StrObj new_text
 \<and> format_record (fst (snd (replace_text self new_text w))) = Inl (AttributeError str_has_no_value)
 \<and> ((\<exists>s. format_record r = Inr s) = (\<exists>t. self_text r = TextObj t))"
  by (auto simp: replace_text_def format_record_def Let_def split: sum.splits text_attr.splits)

theorem format_record_after_replace_text_witness:
  "format_record (fst (snd (replace_text
       \<lparr>self_text = TextObj (Text (ascii ''hello'')), self_tags = [], self_note_id = Some 1\<rparr>
       (ascii ''new'')
       \<lparr>db_notes = [\<lparr>notes_id = 1, notes_note = ascii ''hello'', notes_tags = ascii ''[]''\<rparr>],
         stdout = []\<rparr>)))
     = Inl (AttributeError str_has_no_value)"
  using format_record_after_replace_text [of
       "\<lparr>self_text = TextObj (Text (ascii ''hello'')), self_tags = [], self_note_id = Some 1\<rparr>"
       "ascii ''new''"
       "\<lparr>db_notes = [\<lparr>notes_id = 1, notes_note = ascii ''hello'', notes_tags = ascii ''[]''\<rparr>],
         stdout = []\<rparr>"]
  by simp

section \<open>Mutation of a Record\<close>

text \<open>The text that \<open>json.dumps\<close> writes is ASCII, so the driver can always bind it.\<close>

lemma hex_digit_ascii: "d < 16 \<Longrightarrow> hex_digit d < 128"
  by (simp add: hex_digit_def)

lemma hex4_ascii: "c \<in> set (hex4 n) \<Longrightarrow> c < 128"
  by (auto simp: hex4_def intro!: hex_digit_ascii)

lemma escape_char_ascii: "d \<in> set (escape_char c) \<Longrightarrow> d < 128"
  by (auto simp: escape_char_def Let_def split: if_splits dest: hex4_ascii)

lemma encode_basestring_ascii_ascii: "d \<in> set (encode_basestring_ascii s) \<Longrightarrow> d < 128"
  by (auto simp: encode_basestring_ascii_def dest: escape_char_ascii)

lemma join_ascii:
  "\<forall>d \<in> set sep. d < 128 \<Longrightarrow> \<forall>x \<in> set xs. \<forall>d \<in> set x. d < 128
     \<Longrightarrow> \<forall>d \<in> set (join sep xs). d < (128::nat)"
  by (induction sep xs rule: join.induct) auto

lemma json_dumps_ascii: "d \<in> set (json_dumps xs) \<Longrightarrow> d < 128"
proof -
  have "\<forall>d \<in> set (join (ascii '', '') (map encode_basestring_ascii xs)). d < 128"
    by (rule join_ascii) (auto simp: ascii_def dest: encode_basestring_ascii_ascii)
  then show "d \<in> set (json_dumps xs) \<Longrightarrow> d < 128"
    by (auto simp: json_dumps_def)
qed

lemma bind_text_json_dumps: "bind_text (json_dumps xs)"
  by (auto simp: bind_text_def list_all_iff scalar_def dest!: json_dumps_ascii)


text \<open>What the three mutating methods do when no row has the Record's id.\<close>

lemma replace_text_no_row:
  assumes "\<forall>r \<in> set (db_notes w). \<not> id_is (self_note_id self) r"
  shows "replace_text self new_text w =
           (if \<not> bind_text new_text then Some UnicodeEncodeError
            else if \<not> bind_id (self_note_id self) then Some OverflowError
            else None,
            self\<lparr>self_text := StrObj new_text\<rparr>, w)"
  using update_note_no_row [OF assms] by (simp add: replace_text_def Let_def)

lemma add_tags_no_row:
  assumes "\<forall>r \<in> set (db_notes w). \<not> id_is (self_note_id self) r"
  shows "add_tags cl self new_tags w =
           (case wrap_tags cl new_tags of
              Inl e \<Rightarrow> (Some e, self, w)
            | Inr ts \<Rightarrow>
                (if \<not> bind_id (self_note_id self) then Some OverflowError else None,
                 self\<lparr>self_tags := self_tags self @ ts\<rparr>, w))"
  using update_tags_no_row [OF assms]
  by (simp add: add_tags_def Let_def bind_text_json_dumps split: sum.splits)

lemma remove_record_no_row:
  assumes "\<forall>r \<in> set (db_notes w). \<not> id_is (self_note_id self) r"
  shows "remove_record self w =
           (if \<not> bind_id (self_note_id self) then Some OverflowError else None, self, w)"
  using delete_where_no_row [OF assms] by (simp add: remove_record_def)



text \<open>
  C5, as the claim states it, fails when another row holds the new text: the table
  rejects the UPDATE, the \<open>IntegrityError\<close> leaves \<open>replace_text\<close> and the \<open>note\<close>
  column of the Record's row is the old one. It fails also for a new text with a
  surrogate code point, which the driver cannot encode.
\<close>

theorem replace_text_rejected_counterexample:
  "replace_text
       \<lparr>self_text = TextObj (Text (ascii ''buy milk'')), self_tags = [], self_note_id = Some 1\<rparr>
       (ascii ''call mum'')
       \<lparr>db_notes = [\<lparr>notes_id = 1, notes_note = ascii ''buy milk'', notes_tags = ascii ''[]''\<rparr>,
                    \<lparr>notes_id = 2, notes_note = ascii ''call mum'', notes_tags = ascii ''[]''\<rparr>],
         stdout = []\<rparr>
     = (Some (IntegrityRaised (IntegrityError (ascii ''UNIQUE constraint failed: notes.note''))),
        \<lparr>self_text = StrObj (ascii ''call mum''), self_tags = [], self_note_id = Some 1\<rparr>,
        \<lparr>db_notes = [\<lparr>notes_id = 1, notes_note = ascii ''buy milk'', notes_tags = ascii ''[]''\<rparr>,
                     \<lparr>notes_id = 2, notes_note = ascii ''call mum'', notes_tags = ascii ''[]''\<rparr>],
          stdout = []\<rparr>)
 \<and> replace_text
       \<lparr>self_text = TextObj (Text (ascii ''buy milk'')), self_tags = [], self_note_id = Some 1\<rparr>
       [0xD800]
       \<lparr>db_notes = [\<lparr>notes_id = 1, notes_note = ascii ''buy milk'', notes_tags = ascii ''[]''\<rparr>],
         stdout = []\<rparr>
     = (Some UnicodeEncodeError,
        \<lparr>self_text = StrObj [0xD800], self_tags = [], self_note_id = Some 1\<rparr>,
        \<lparr>db_notes = [\<lparr>notes_id = 1, notes_note = ascii ''buy milk'', notes_tags = ascii ''[]''\<rparr>],
          stdout = []\<rparr>)"
  by (simp add: replace_text_def update_note_def id_is_def unique_failed_def ascii_def Let_def
        bind_text_def bind_id_def scalar_def)

text \<open>
  C5 (amended): when \<open>new_text\<close> holds no surrogate code point and no other row holds
  it, \<open>replace_text(new_text)\<close> on a Record whose id a row can have (a persisted one)
  returns and has written \<open>new_text\<close> to the \<open>note\<close> column of the row that has the
  Record's id, and nothing else: every row keeps its id and its tags, and the rows
  without the id are the same before and after the call.
\<close>

theorem replace_text_note_column:
  assumes "\<forall>c \<in> set new_text. scalar c"
      and "bind_id (self_note_id self)"
      and "\<forall>r \<in> set (db_notes w). \<not> id_is (self_note_id self) r \<longrightarrow> notes_note r \<noteq> new_text"
  shows "replace_text self new_text w =
           (None, self\<lparr>self_text := StrObj new_text\<rparr>,
            w\<lparr>db_notes := set_note (db_notes w) (self_note_id self) new_text\<rparr>)
       \<and> (\<forall>r \<in> set (set_note (db_notes w) (self_note_id self) new_text).
             id_is (self_note_id self) r \<longrightarrow> notes_note r = new_text)
       \<and> (\<forall>r \<in> set (set_note (db_notes w) (self_note_id self) new_text).
             \<not> id_is (self_note_id self) r \<longrightarrow> r \<in> set (db_notes w))
       \<and> (\<forall>r \<in> set (db_notes w).
             \<not> id_is (self_note_id self) r
             \<longrightarrow> r \<in> set (set_note (db_notes w) (self_note_id self) new_text))
       \<and> map notes_tags (set_note (db_notes w) (self_note_id self) new_text)
           = map notes_tags (db_notes w)
       \<and> map notes_id (set_note (db_notes w) (self_note_id self) new_text)
           = map notes_id (db_notes w)"
proof -
  have "new_text \<notin> set (map notes_note (filter (\<lambda>r. \<not> id_is (self_note_id self) r) (db_notes w)))"
    using assms(3) by auto
  moreover have "bind_text new_text"
    using assms(1) by (simp add: bind_text_def list_all_iff)
  ultimately have "replace_text self new_text w =
           (None, self\<lparr>self_text := StrObj new_text\<rparr>,
            w\<lparr>db_notes := set_note (db_notes w) (self_note_id self) new_text\<rparr>)"
    using assms(2) by (simp add: replace_text_def update_note_def Let_def)
  moreover have "\<forall>r \<in> set (set_note (db_notes w) (self_note_id self) new_text).
             id_is (self_note_id self) r \<longrightarrow> notes_note r = new_text"
    using set_note_hit by blast
  moreover have "\<forall>r \<in> set (set_note (db_notes w) (self_note_id self) new_text).
             \<not> id_is (self_note_id self) r \<longrightarrow> r \<in> set (db_notes w)"
    using set_note_miss by blast
  moreover have "\<forall>r \<in> set (db_notes w).
             \<not> id_is (self_note_id self) r
             \<longrightarrow> r \<in> set (set_note (db_notes w) (self_note_id self) new_text)"
    using set_note_keeps by blast
  ultimately show ?thesis
    using set_note_ids set_note_tags by blast
qed

theorem replace_text_note_column_witness:
  \<open>replace_text
       \<lparr>self_text = TextObj (Text (ascii ''buy milk'')), self_tags = [Tag (ascii ''a'')],
         self_note_id = Some 1\<rparr>
       (ascii ''new'')
       \<lparr>db_notes = [\<lparr>notes_id = 1, notes_note = ascii ''buy milk'', notes_tags = ascii ''["a"]''\<rparr>,
                    \<lparr>notes_id = 2, notes_note = ascii ''call mum'', notes_tags = ascii ''[]''\<rparr>],
         stdout = []\<rparr>
     = (None,
        \<lparr>self_text = StrObj (ascii ''new''), self_tags = [Tag (ascii ''a'')], self_note_id = Some 1\<rparr>,
        \<lparr>db_notes = [\<lparr>notes_id = 1, notes_note = ascii ''new'', notes_tags = ascii ''["a"]''\<rparr>,
                     \<lparr>notes_id = 2, notes_note = ascii ''call mum'', notes_tags = ascii ''[]''\<rparr>],
          stdout = []\<rparr>)\<close>
  using replace_text_note_column [of "ascii ''new''"
       "\<lparr>self_text = TextObj (Text (ascii ''buy milk'')), self_tags = [Tag (ascii ''a'')],
         self_note_id = Some 1\<rparr>"
       \<open>\<lparr>db_notes = [\<lparr>notes_id = 1, notes_note = ascii ''buy milk'', notes_tags = ascii ''["a"]''\<rparr>,
                    \<lparr>notes_id = 2, notes_note = ascii ''call mum'', notes_tags = ascii ''[]''\<rparr>],
         stdout = []\<rparr>\<close>]
  by (simp add: set_note_def id_is_def ascii_def scalar_def bind_id_def)



text \<open>
  C9, as the claim states it, fails in its last part. \<open>remove_record\<close> keeps \<open>note_id\<close>,
  and the table gives the id of a deleted last row to the next row inserted: the
  methods of the old object then match that row, and \<open>replace_text\<close> rewrites, and
  \<open>remove_record\<close> deletes, another note. And \<open>replace_text\<close> after the removal does
  fail for a text with a surrogate code point.
\<close>

theorem remove_record_id_reused_counterexample:
  "remove_record
       \<lparr>self_text = TextObj (Text (ascii ''buy milk'')), self_tags = [], self_note_id = Some 1\<rparr>
       \<lparr>db_notes = [\<lparr>notes_id = 1, notes_note = ascii ''buy milk'', notes_tags = ascii ''[]''\<rparr>],
         stdout = []\<rparr>
     = (None,
        \<lparr>self_text = TextObj (Text (ascii ''buy milk'')), self_tags = [], self_note_id = Some 1\<rparr>,
        \<lparr>db_notes = [], stdout = []\<rparr>)
 \<and> Record_init spec_collaborators (ascii ''call mum'') None None \<lparr>db_notes = [], stdout = []\<rparr>
     = (Inr \<lparr>self_text = TextObj (Text (ascii ''call mum'')), self_tags = [], self_note_id = Some 1\<rparr>,
        \<lparr>db_notes = [\<lparr>notes_id = 1, notes_note = ascii ''call mum'', notes_tags = ascii ''[]''\<rparr>],
          stdout = []\<rparr>)
 \<and> replace_text
       \<lparr>self_text = TextObj (Text (ascii ''buy milk'')), self_tags = [], self_note_id = Some 1\<rparr>
       (ascii ''gone'')
       \<lparr>db_notes = [\<lparr>notes_id = 1, notes_note = ascii ''call mum'', notes_tags = ascii ''[]''\<rparr>],
         stdout = []\<rparr>
     = (None,
        \<lparr>self_text = StrObj (ascii ''gone''), self_tags = [], self_note_id = Some 1\<rparr>,
        \<lparr>db_notes = [\<lparr>notes_id = 1, notes_note = ascii ''gone'', notes_tags = ascii ''[]''\<rparr>],
          stdout = []\<rparr>)
 \<and> remove_record
       \<lparr>self_text = TextObj (Text (ascii ''buy milk'')), self_tags = [], self_note_id = Some 1\<rparr>
       \<lparr>db_notes = [\<lparr>notes_id = 1, notes_note = ascii ''call mum'', notes_tags = ascii ''[]''\<rparr>],
         stdout = []\<rparr>
     = (None,
        \<lparr>self_text = TextObj (Text (ascii ''buy milk'')), self_tags = [], self_note_id = Some 1\<rparr>,
        \<lparr>db_notes = [], stdout = []\<rparr>)
 \<and> replace_text
       \<lparr>self_text = TextObj (Text (ascii ''buy milk'')), self_tags = [], self_note_id = Some 1\<rparr>
       [0xD800]
       \<lparr>db_notes = [], stdout = []\<rparr>
     = (Some UnicodeEncodeError,
        \<lparr>self_text = StrObj [0xD800], self_tags = [], self_note_id = Some 1\<rparr>,
        \<lparr>db_notes = [], stdout = []\<rparr>)"
  by (simp add: remove_record_def delete_where_def rows_without_def replace_text_def update_note_def
        set_note_def id_is_def bind_id_def bind_text_def scalar_def Record_init_def save_def
        commit_insert_def spec_collaborators_def nonempty_def not_note_id_def next_rowid_def
        json_dumps_def ascii_def Let_def)

text \<open>
  C9 (amended): \<open>remove_record\<close> on a Record whose id a row can have (a persisted one)
  returns with the object as it was and with the table without the rows of that id: no
  row with the id remains and every other row does. Afterwards, on any world in which
  no row has that id, and whatever was assigned to the other fields of the object
  meanwhile, \<open>replace_text\<close> (with a text free of surrogate code points), \<open>add_tags\<close>
  (with tags that \<open>Tag\<close> accepts) and \<open>remove_record\<close> return without an exception
  and leave the world as it is.
\<close>

theorem remove_record_deletes_row:
  assumes "bind_id (self_note_id self)"
  shows "remove_record self w =
           (None, self, w\<lparr>db_notes := rows_without (db_notes w) (self_note_id self)\<rparr>)
       \<and> (\<forall>r \<in> set (rows_without (db_notes w) (self_note_id self)). \<not> id_is (self_note_id self) r)
       \<and> (\<forall>r \<in> set (db_notes w).
             \<not> id_is (self_note_id self) r
             \<longrightarrow> r \<in> set (rows_without (db_notes w) (self_note_id self)))
       \<and> (self_note_id self2 = self_note_id self
            \<and> (\<forall>r \<in> set (db_notes w2). \<not> id_is (self_note_id self) r)
          \<longrightarrow> ((\<forall>c \<in> set new_text. scalar c)
                  \<longrightarrow> replace_text self2 new_text w2
                      = (None, self2\<lparr>self_text := StrObj new_text\<rparr>, w2))
              \<and> (\<forall>ts. wrap_tags cl new_tags = Inr ts
                     \<longrightarrow> add_tags cl self2 new_tags w2
                         = (None, self2\<lparr>self_tags := self_tags self2 @ ts\<rparr>, w2))
              \<and> remove_record self2 w2 = (None, self2, w2))"
proof -
  have del: "remove_record self w =
           (None, self, w\<lparr>db_notes := rows_without (db_notes w) (self_note_id self)\<rparr>)"
    using assms by (simp add: remove_record_def delete_where_def)
  have gone: "\<forall>r \<in> set (rows_without (db_notes w) (self_note_id self)). \<not> id_is (self_note_id self) r"
    using rows_without_gone by blast
  have kept: "\<forall>r \<in> set (db_notes w). \<not> id_is (self_note_id self) r
                \<longrightarrow> r \<in> set (rows_without (db_notes w) (self_note_id self))"
    using rows_without_keeps by blast
  have later: "((\<forall>c \<in> set new_text. scalar c)
                  \<longrightarrow> replace_text self2 new_text w2
                      = (None, self2\<lparr>self_text := StrObj new_text\<rparr>, w2))
              \<and> (\<forall>ts. wrap_tags cl new_tags = Inr ts
                     \<longrightarrow> add_tags cl self2 new_tags w2
                         = (None, self2\<lparr>self_tags := self_tags self2 @ ts\<rparr>, w2))
              \<and> remove_record self2 w2 = (None, self2, w2)"
    if same: "self_note_id self2 = self_note_id self"
      and none: "\<forall>r \<in> set (db_notes w2). \<not> id_is (self_note_id self) r"
  proof -
    have none2: "\<forall>r \<in> set (db_notes w2). \<not> id_is (self_note_id self2) r"
      using none same by simp
    have b: "bind_id (self_note_id self2)" using assms same by simp
    have "replace_text self2 new_text w2 = (None, self2\<lparr>self_text := StrObj new_text\<rparr>, w2)"
      if "\<forall>c \<in> set new_text. scalar c"
      using that b replace_text_no_row [OF none2, of new_text]
      by (simp add: bind_text_def list_all_iff)
    moreover have "add_tags cl self2 new_tags w2
                     = (None, self2\<lparr>self_tags := self_tags self2 @ ts\<rparr>, w2)"
      if "wrap_tags cl new_tags = Inr ts" for ts
      using that b add_tags_no_row [OF none2, of cl new_tags] by simp
    moreover have "remove_record self2 w2 = (None, self2, w2)"
      using b remove_record_no_row [OF none2] by simp
    ultimately show ?thesis by blast
  qed
  show ?thesis using del gone kept later by blast
qed

theorem remove_record_deletes_row_witness:
  \<open>remove_record
       \<lparr>self_text = TextObj (Text (ascii ''buy milk'')), self_tags = [Tag (ascii ''a'')],
         self_note_id = Some 1\<rparr>
       \<lparr>db_notes = [\<lparr>notes_id = 1, notes_note = ascii ''buy milk'', notes_tags = ascii ''["a"]''\<rparr>,
                    \<lparr>notes_id = 2, notes_note = ascii ''call mum'', notes_tags = ascii ''[]''\<rparr>],
         stdout = []\<rparr>
     = (None,
        \<lparr>self_text = TextObj (Text (ascii ''buy milk'')), self_tags = [Tag (ascii ''a'')],
          self_note_id = Some 1\<rparr>,
        \<lparr>db_notes = [\<lparr>notes_id = 2, notes_note = ascii ''call mum'', notes_tags = ascii ''[]''\<rparr>],
          stdout = []\<rparr>)
 \<and> replace_text
       \<lparr>self_text = TextObj (Text (ascii ''buy milk'')), self_tags = [Tag (ascii ''a'')],
         self_note_id = Some 1\<rparr>
       (ascii ''call mum'')
       \<lparr>db_notes = [\<lparr>notes_id = 2, notes_note = ascii ''call mum'', notes_tags = ascii ''[]''\<rparr>],
         stdout = []\<rparr>
     = (None,
        \<lparr>self_text = StrObj (ascii ''call mum''), self_tags = [Tag (ascii ''a'')],
          self_note_id = Some 1\<rparr>,
        \<lparr>db_notes = [\<lparr>notes_id = 2, notes_note = ascii ''call mum'', notes_tags = ascii ''[]''\<rparr>],
          stdout = []\<rparr>)
 \<and> add_tags spec_collaborators
       \<lparr>self_text = TextObj (Text (ascii ''buy milk'')), self_tags = [Tag (ascii ''a'')],
         self_note_id = Some 1\<rparr>
       [ascii ''b'']
       \<lparr>db_notes = [\<lparr>notes_id = 2, notes_note = ascii ''call mum'', notes_tags = ascii ''[]''\<rparr>],
         stdout = []\<rparr>
     = (None,
        \<lparr>self_text = TextObj (Text (ascii ''buy milk'')),
          self_tags = [Tag (ascii ''a''), Tag (ascii ''b'')], self_note_id = Some 1\<rparr>,
        \<lparr>db_notes = [\<lparr>notes_id = 2, notes_note = ascii ''call mum'', notes_tags = ascii ''[]''\<rparr>],
          stdout = []\<rparr>)
 \<and> remove_record
       \<lparr>self_text = TextObj (Text (ascii ''buy milk'')), self_tags = [Tag (ascii ''a'')],
         self_note_id = Some 1\<rparr>
       \<lparr>db_notes = [\<lparr>notes_id = 2, notes_note = ascii ''call mum'', notes_tags = ascii ''[]''\<rparr>],
         stdout = []\<rparr>
     = (None,
        \<lparr>self_text = TextObj (Text (ascii ''buy milk'')), self_tags = [Tag (ascii ''a'')],
          self_note_id = Some 1\<rparr>,
        \<lparr>db_notes = [\<lparr>notes_id = 2, notes_note = ascii ''call mum'', notes_tags = ascii ''[]''\<rparr>],
          stdout = []\<rparr>)\<close>
  using remove_record_deletes_row [where
       self = "\<lparr>self_text = TextObj (Text (ascii ''buy milk'')), self_tags = [Tag (ascii ''a'')],
                self_note_id = Some 1\<rparr>"
       and w = \<open>\<lparr>db_notes = [\<lparr>notes_id = 1, notes_note = ascii ''buy milk'',
                               notes_tags = ascii ''["a"]''\<rparr>,
                             \<lparr>notes_id = 2, notes_note = ascii ''call mum'',
                               notes_tags = ascii ''[]''\<rparr>],
                  stdout = []\<rparr>\<close>
       and ?self2.0 = "\<lparr>self_text = TextObj (Text (ascii ''buy milk'')), self_tags = [Tag (ascii ''a'')],
                self_note_id = Some 1\<rparr>"
       and ?w2.0 = "\<lparr>db_notes = [\<lparr>notes_id = 2, notes_note = ascii ''call mum'',
                                notes_tags = ascii ''[]''\<rparr>],
                   stdout = []\<rparr>"
       and new_text = "ascii ''call mum''" and cl = spec_collaborators and new_tags = "[ascii ''b'']"]
  by (simp add: rows_without_def id_is_def ascii_def bind_id_def scalar_def spec_collaborators_def
        nonempty_def)

end
